theory Spec2Isabelle
  imports Main
begin

section \<open>Package charset: data model\<close>

text \<open>
  The package resolves a charset name to an \<^verbatim>\<open>encoding.Encoding\<close> and wraps streams with
  it. An \<^verbatim>\<open>encoding.Encoding\<close> is an opaque interface value of the imported text package;
  the two values the source names are constructors of their own, every other value is
  \<open>OtherEncoding\<close>. A Go interface value that may be \<^verbatim>\<open>nil\<close> is an \<open>option\<close>, \<open>None\<close> being
  \<^verbatim>\<open>nil\<close>.
\<close>

datatype encoding = ISO8859_1 | UTF8 | OtherEncoding nat

text \<open>
  An index function of the imported packages has the Go result type
  \<^verbatim>\<open>(encoding.Encoding, error)\<close>: both components may be \<^verbatim>\<open>nil\<close>, and the type excludes no
  combination. The error of an index is kept as its message, which is all that
  \<^verbatim>\<open>%v\<close> reads from it.
\<close>

type_synonym index_result = "encoding option \<times> string option"

text \<open>
  What the source imports and this repository does not contain:
  \<^item> \<open>unicode_ToLower\<close>: the branch \<^verbatim>\<open>strings.Map(unicode.ToLower, s)\<close> that
    \<^verbatim>\<open>strings.ToLower\<close> takes on a string with a byte outside ASCII (it needs the Unicode
    case tables);
  \<^item> \<open>MIME_Encoding\<close>: \<^verbatim>\<open>ianaindex.MIME.Encoding\<close>;
  \<^item> \<open>htmlindex_Get\<close>: \<^verbatim>\<open>htmlindex.Get\<close>.
\<close>

record externals =
  unicode_ToLower :: "string \<Rightarrow> string"
  MIME_Encoding :: "string \<Rightarrow> index_result"
  htmlindex_Get :: "string \<Rightarrow> index_result"

text \<open>A call of an external index, recorded in the order the calls are made.\<close>

datatype index_call = Call_MIME_Encoding string | Call_htmlindex_Get string

text \<open>
  The three errors \<^verbatim>\<open>charsetEncoding\<close> builds with \<^verbatim>\<open>fmt.Errorf\<close>; each carries the requested
  charset (the \<^verbatim>\<open>%q\<close> argument), and \<open>LookupFailure\<close> the message of the index's error (the
  \<^verbatim>\<open>%v\<close> argument):
  \<^item> \<open>Disabled c\<close>: \<^verbatim>\<open>charset %q: charset is disabled\<close>;
  \<^item> \<open>LookupFailure c m\<close>: \<^verbatim>\<open>charset %q: %v\<close>;
  \<^item> \<open>Unsupported c\<close>: \<^verbatim>\<open>charset %q: unsupported charset\<close>.
\<close>

datatype error = Disabled string | LookupFailure string string | Unsupported string

text \<open>
  The quirks table \<^verbatim>\<open>charsets\<close> is a Go map from string to \<^verbatim>\<open>encoding.Encoding\<close>: a key is absent
  (\<open>None\<close>), present with a \<^verbatim>\<open>nil\<close> entry (\<open>Some None\<close>, the charset is disabled) or present
  with an encoding.
\<close>

type_synonym table = "string \<rightharpoonup> encoding option"

definition charsets :: table where
  "charsets = [''ansi_x3.110-1983'' \<mapsto> Some ISO8859_1, ''x-utf_8j'' \<mapsto> Some UTF8]"

text \<open>
  Streams: an \<^verbatim>\<open>io.Reader\<close> is the caller's own or the \<^verbatim>\<open>transform.Reader\<close> that
  \<^verbatim>\<open>enc.NewDecoder().Reader(input)\<close> allocates around one; likewise for \<^verbatim>\<open>io.Writer\<close> and
  \<^verbatim>\<open>enc.NewEncoder().Writer(writer)\<close>.
\<close>

datatype 'a io_Reader = SourceReader 'a | DecoderReader encoding "'a io_Reader"

datatype 'a io_Writer = SinkWriter 'a | EncoderWriter encoding "'a io_Writer"

section \<open>strings.ToLower\<close>

text \<open>
  \<^verbatim>\<open>strings.ToLower\<close> of the Go library, on the bytes of the string: it scans for a byte
  \<^verbatim>\<open>>= utf8.RuneSelf\<close> (128) and for a byte in \<^verbatim>\<open>'A'..'Z'\<close>; an ASCII string with no upper
  case letter is returned as it is, another ASCII string has \<^verbatim>\<open>'a' - 'A'\<close> (32) added to each
  upper case byte, and every other string goes through \<^verbatim>\<open>strings.Map(unicode.ToLower, s)\<close>.
\<close>

definition isASCII :: "char \<Rightarrow> bool" where
  "isASCII c = ((of_char c :: nat) < 128)"

definition isUpper :: "char \<Rightarrow> bool" where
  "isUpper c = (65 \<le> (of_char c :: nat) \<and> (of_char c :: nat) \<le> 90)"

definition lowerByte :: "char \<Rightarrow> char" where
  "lowerByte c = (if isUpper c then char_of ((of_char c :: nat) + 32) else c)"

definition ToLower :: "externals \<Rightarrow> string \<Rightarrow> string" where
  "ToLower X s =
     (if list_all isASCII s
      then (if list_ex isUpper s then map lowerByte s else s)
      else unicode_ToLower X s)"

section \<open>Resolution\<close>

text \<open>
  Line 39, \<^verbatim>\<open>enc, ok := charsets[strings.ToLower(charset)]\<close>: a missing key gives the zero value
  \<^verbatim>\<open>nil\<close> and \<^verbatim>\<open>ok = false\<close>.
\<close>

definition quirks_lookup :: "externals \<Rightarrow> table \<Rightarrow> string \<Rightarrow> encoding option \<times> bool" where
  "quirks_lookup X tbl charset =
     (case tbl (ToLower X charset) of None \<Rightarrow> (None, False) | Some v \<Rightarrow> (v, True))"

text \<open>
  \<^verbatim>\<open>charsetEncoding\<close>, with the table it reads as an argument. The locals \<^verbatim>\<open>enc\<close> and \<^verbatim>\<open>err\<close>
  are threaded through the three \<^verbatim>\<open>if\<close> statements together with the list of index calls
  made so far; the result is Go's \<^verbatim>\<open>(nil, error)\<close> as \<open>Inl\<close> and \<^verbatim>\<open>(enc, nil)\<close> as \<open>Inr\<close>, beside
  the calls.
\<close>

definition charsetEncoding ::
  "externals \<Rightarrow> table \<Rightarrow> string \<Rightarrow> (error + encoding) \<times> index_call list" where
  "charsetEncoding X tbl charset =
     (let (enc0, ok) = quirks_lookup X tbl charset in
      if ok \<and> enc0 = None then (Inl (Disabled charset), [])
      else
        let (enc1, err1, log1) =
              (if \<not> ok
               then (case MIME_Encoding X charset of
                       (e, r) \<Rightarrow> (e, r, [Call_MIME_Encoding charset]))
               else (enc0, None, []));
            (enc2, err2, log2) =
              (if enc1 = None
               then (case MIME_Encoding X (''cs'' @ charset) of
                       (e, r) \<Rightarrow> (e, r, log1 @ [Call_MIME_Encoding (''cs'' @ charset)]))
               else (enc1, err1, log1));
            (enc3, err3, log3) =
              (if enc2 = None
               then (case htmlindex_Get X charset of
                       (e, r) \<Rightarrow> (e, r, log2 @ [Call_htmlindex_Get charset]))
               else (enc2, err2, log2))
        in (case err3 of
              Some m \<Rightarrow> (Inl (LookupFailure charset m), log3)
            | None \<Rightarrow>
                (case enc3 of
                   None \<Rightarrow> (Inl (Unsupported charset), log3)
                 | Some e \<Rightarrow> (Inr e, log3))))"

section \<open>Stream adapters and registration\<close>

text \<open>
  \<^verbatim>\<open>Reader\<close> and \<^verbatim>\<open>Writer\<close> return Go's pair of a stream and an error (\<open>None\<close> is \<^verbatim>\<open>nil\<close>), beside
  the index calls of the resolution.
\<close>

definition Reader ::
  "externals \<Rightarrow> table \<Rightarrow> string \<Rightarrow> 'a io_Reader \<Rightarrow> ('a io_Reader \<times> error option) \<times> index_call list" where
  "Reader X tbl charset input =
     (case charsetEncoding X tbl charset of
        (Inl err, log) \<Rightarrow> ((input, Some err), log)
      | (Inr enc, log) \<Rightarrow> ((DecoderReader enc input, None), log))"

definition Writer ::
  "externals \<Rightarrow> table \<Rightarrow> string \<Rightarrow> 'a io_Writer \<Rightarrow> ('a io_Writer \<times> error option) \<times> index_call list" where
  "Writer X tbl charset writer =
     (case charsetEncoding X tbl charset of
        (Inl err, log) \<Rightarrow> ((writer, Some err), log)
      | (Inr enc, log) \<Rightarrow> ((EncoderWriter enc writer, None), log))"

text \<open>\<^verbatim>\<open>RegisterEncoding\<close>: \<^verbatim>\<open>charsets[name] = enc\<close>, returning the table after the assignment.\<close>

definition RegisterEncoding :: "string \<Rightarrow> encoding option \<Rightarrow> table \<Rightarrow> table" where
  "RegisterEncoding name enc tbl = tbl(name \<mapsto> enc)"

section \<open>A concrete instance of the imported packages\<close>

text \<open>
  A small stand-in for the imported packages, on which the model is evaluated at concrete
  names. As the real indices do, it reports an unknown name with an error and a known name
  without an encoding by \<^verbatim>\<open>(nil, nil)\<close>.
\<close>

definition demo_MIME :: "string \<Rightarrow> index_result" where
  "demo_MIME n =
     (if n = ''UTF-8'' \<or> n = ''utf-8'' then (Some UTF8, None)
      else if n = ''csISOLatin1'' then (Some ISO8859_1, None)
      else if n = ''UTF-7'' \<or> n = ''utf-7'' then (Some (OtherEncoding 7), None)
      else if n = ''ISO-10646-UCS-2'' \<or> n = ''csISO-10646-UCS-2'' then (None, None)
      else (None, Some ''ianaindex: invalid encoding name''))"

definition demo_HTML :: "string \<Rightarrow> index_result" where
  "demo_HTML n =
     (if n = ''x-sjis'' then (Some (OtherEncoding 17), None)
      else if n = ''ISO-10646-UCS-2'' then (None, None)
      else (None, Some ''htmlindex: invalid encoding name''))"

definition demo :: externals where
  "demo = \<lparr>unicode_ToLower = (\<lambda>s. s), MIME_Encoding = demo_MIME, htmlindex_Get = demo_HTML\<rparr>"

section \<open>Lower-casing of ASCII strings\<close>

lemma lowerByte_not_upper: "\<not> isUpper (lowerByte c)"
  by (simp add: lowerByte_def isUpper_def)

lemma lowerByte_ascii: "isASCII (lowerByte c) \<Longrightarrow> isASCII c"
  by (auto simp: lowerByte_def isASCII_def isUpper_def split: if_splits)

lemma map_lowerByte_ascii: "list_all isASCII (map lowerByte s) \<Longrightarrow> list_all isASCII s"
  by (induction s) (auto dest: lowerByte_ascii)

lemma map_lowerByte_id: "\<not> list_ex isUpper s \<Longrightarrow> map lowerByte s = s"
  by (induction s) (auto simp: lowerByte_def)

lemma ToLower_ascii: "list_all isASCII s \<Longrightarrow> ToLower X s = map lowerByte s"
  by (simp add: ToLower_def map_lowerByte_id)

lemma lowerByte_keeps_ascii: "isASCII c \<Longrightarrow> isASCII (lowerByte c)"
  by (auto simp: lowerByte_def isASCII_def isUpper_def)

lemma map_lowerByte_keeps_ascii: "list_all isASCII s \<Longrightarrow> list_all isASCII (map lowerByte s)"
  by (induction s) (auto dest: lowerByte_keeps_ascii)

lemma lowerByte_idem: "lowerByte (lowerByte c) = lowerByte c"
  using lowerByte_not_upper [of c] by (simp add: lowerByte_def)

lemma ToLower_idem_ascii: "list_all isASCII s \<Longrightarrow> ToLower X (ToLower X s) = ToLower X s"
  by (simp add: ToLower_ascii map_lowerByte_keeps_ascii lowerByte_idem)

lemma ToLower_case_variant:
  assumes "map lowerByte s = t" and "list_all isASCII t"
  shows "ToLower X s = t"
proof -
  from assms have "list_all isASCII s" by (auto intro: map_lowerByte_ascii)
  then show ?thesis using assms(1) by (simp add: ToLower_ascii)
qed

section \<open>Resolution: the branches of charsetEncoding\<close>

lemma charsetEncoding_disabled:
  "tbl (ToLower X charset) = Some None \<Longrightarrow> charsetEncoding X tbl charset = (Inl (Disabled charset), [])"
  by (simp add: charsetEncoding_def quirks_lookup_def)

lemma charsetEncoding_hit:
  "tbl (ToLower X charset) = Some (Some e) \<Longrightarrow> charsetEncoding X tbl charset = (Inr e, [])"
  by (simp add: charsetEncoding_def quirks_lookup_def)

lemma charsetEncoding_miss_step1:
  assumes "tbl (ToLower X charset) = None" and "MIME_Encoding X charset = (Some e, r)"
  shows "charsetEncoding X tbl charset =
           ((case r of Some m \<Rightarrow> Inl (LookupFailure charset m) | None \<Rightarrow> Inr e),
            [Call_MIME_Encoding charset])"
  using assms by (simp add: charsetEncoding_def quirks_lookup_def split: option.splits)

lemma charsetEncoding_miss_step2:
  assumes "tbl (ToLower X charset) = None" and "MIME_Encoding X charset = (None, r1)"
    and "MIME_Encoding X (''cs'' @ charset) = (Some e, r)"
  shows "charsetEncoding X tbl charset =
           ((case r of Some m \<Rightarrow> Inl (LookupFailure charset m) | None \<Rightarrow> Inr e),
            [Call_MIME_Encoding charset, Call_MIME_Encoding (''cs'' @ charset)])"
  using assms by (simp add: charsetEncoding_def quirks_lookup_def split: option.splits)

lemma charsetEncoding_miss_step3:
  assumes "tbl (ToLower X charset) = None" and "MIME_Encoding X charset = (None, r1)"
    and "MIME_Encoding X (''cs'' @ charset) = (None, r2)"
    and "htmlindex_Get X charset = (enc, r)"
  shows "charsetEncoding X tbl charset =
           ((case r of Some m \<Rightarrow> Inl (LookupFailure charset m)
             | None \<Rightarrow> (case enc of None \<Rightarrow> Inl (Unsupported charset) | Some e \<Rightarrow> Inr e)),
            [Call_MIME_Encoding charset, Call_MIME_Encoding (''cs'' @ charset),
             Call_htmlindex_Get charset])"
  using assms by (simp add: charsetEncoding_def quirks_lookup_def split: option.splits)

section \<open>Claims\<close>

text \<open>
  C1. For a charset whose lower-cased name is no key of the quirks table, the external
  indices are called in this order, and a later one only when every earlier call gave no
  encoding: the MIME index with the name as given, the MIME index with \<^verbatim>\<open>"cs"\<close> before the
  name, the HTML index with the name as given. The first call that gives an encoding (and
  no error) decides the result.
\<close>

theorem charsetEncoding_index_order:
  assumes "tbl (ToLower X charset) = None"
  shows "snd (charsetEncoding X tbl charset) =
           (if fst (MIME_Encoding X charset) \<noteq> None then [Call_MIME_Encoding charset]
            else if fst (MIME_Encoding X (''cs'' @ charset)) \<noteq> None
              then [Call_MIME_Encoding charset, Call_MIME_Encoding (''cs'' @ charset)]
            else [Call_MIME_Encoding charset, Call_MIME_Encoding (''cs'' @ charset),
                  Call_htmlindex_Get charset])
         \<and> (MIME_Encoding X charset = (Some e, None)
              \<longrightarrow> fst (charsetEncoding X tbl charset) = Inr e)
         \<and> (fst (MIME_Encoding X charset) = None
              \<and> MIME_Encoding X (''cs'' @ charset) = (Some e, None)
              \<longrightarrow> fst (charsetEncoding X tbl charset) = Inr e)
         \<and> (fst (MIME_Encoding X charset) = None
              \<and> fst (MIME_Encoding X (''cs'' @ charset)) = None
              \<and> htmlindex_Get X charset = (Some e, None)
              \<longrightarrow> fst (charsetEncoding X tbl charset) = Inr e)"
proof -
  obtain e1 r1 where m1: "MIME_Encoding X charset = (e1, r1)" by (cases "MIME_Encoding X charset")
  obtain e2 r2 where m2: "MIME_Encoding X (''cs'' @ charset) = (e2, r2)"
    by (cases "MIME_Encoding X (''cs'' @ charset)")
  obtain e3 r3 where h3: "htmlindex_Get X charset = (e3, r3)" by (cases "htmlindex_Get X charset")
  show ?thesis
  proof (cases e1)
    case (Some a)
    with assms m1 show ?thesis by (simp add: charsetEncoding_miss_step1)
  next
    case n1: None
    show ?thesis
    proof (cases e2)
      case (Some a)
      with assms m1 m2 n1 show ?thesis by (simp add: charsetEncoding_miss_step2)
    next
      case None
      with assms m1 m2 h3 n1 show ?thesis by (simp add: charsetEncoding_miss_step3)
    qed
  qed
qed

theorem charsetEncoding_index_order_witness:
  "charsets (ToLower demo ''UTF-8'') = None
   \<and> charsetEncoding demo charsets ''UTF-8'' = (Inr UTF8, [Call_MIME_Encoding ''UTF-8''])
   \<and> charsets (ToLower demo ''ISOLatin1'') = None
   \<and> charsetEncoding demo charsets ''ISOLatin1'' =
       (Inr ISO8859_1, [Call_MIME_Encoding ''ISOLatin1'', Call_MIME_Encoding ''csISOLatin1''])
   \<and> charsets (ToLower demo ''x-sjis'') = None
   \<and> charsetEncoding demo charsets ''x-sjis'' =
       (Inr (OtherEncoding 17),
        [Call_MIME_Encoding ''x-sjis'', Call_MIME_Encoding ''csx-sjis'', Call_htmlindex_Get ''x-sjis''])"
proof -
  have a: "charsets (ToLower demo ''UTF-8'') = None" by code_simp
  have b: "charsets (ToLower demo ''ISOLatin1'') = None" by code_simp
  have c: "charsets (ToLower demo ''x-sjis'') = None" by code_simp
  have "charsetEncoding demo charsets ''UTF-8'' = (Inr UTF8, [Call_MIME_Encoding ''UTF-8''])"
    using charsetEncoding_index_order [where tbl = charsets and X = demo and e = UTF8, OF a]
    by (simp add: prod_eq_iff demo_def demo_MIME_def)
  moreover have "charsetEncoding demo charsets ''ISOLatin1'' =
       (Inr ISO8859_1, [Call_MIME_Encoding ''ISOLatin1'', Call_MIME_Encoding ''csISOLatin1''])"
    using charsetEncoding_index_order [where tbl = charsets and X = demo and e = ISO8859_1, OF b]
    by (simp add: prod_eq_iff demo_def demo_MIME_def)
  moreover have "charsetEncoding demo charsets ''x-sjis'' =
       (Inr (OtherEncoding 17),
        [Call_MIME_Encoding ''x-sjis'', Call_MIME_Encoding ''csx-sjis'', Call_htmlindex_Get ''x-sjis''])"
    using charsetEncoding_index_order [where tbl = charsets and X = demo and e = "OtherEncoding 17", OF c]
    by (simp add: prod_eq_iff demo_def demo_MIME_def demo_HTML_def)
  ultimately show ?thesis using a b c by simp
qed

text \<open>
  C2. When the lower-cased name is a key of the quirks table with a \<^verbatim>\<open>nil\<close> entry,
  resolution fails with the error \<open>Disabled\<close> carrying the name as requested, and no
  external index is called; when the entry is an encoding, that encoding is returned, and
  no external index is called either.
\<close>

theorem charsetEncoding_quirks_entry:
  "(tbl (ToLower X charset) = Some None
      \<longrightarrow> charsetEncoding X tbl charset = (Inl (Disabled charset), []))
   \<and> (tbl (ToLower X charset) = Some (Some e)
      \<longrightarrow> charsetEncoding X tbl charset = (Inr e, []))"
  by (simp add: charsetEncoding_disabled charsetEncoding_hit)

theorem charsetEncoding_quirks_entry_witness:
  "(charsets(''utf-7'' \<mapsto> None)) (ToLower demo ''UTF-7'') = Some None
   \<and> fst (MIME_Encoding demo ''UTF-7'') = Some (OtherEncoding 7)
   \<and> charsetEncoding demo (charsets(''utf-7'' \<mapsto> None)) ''UTF-7'' = (Inl (Disabled ''UTF-7''), [])
   \<and> (charsets(''utf-7'' \<mapsto> None)) (ToLower demo ''X-UTF_8J'') = Some (Some UTF8)
   \<and> charsetEncoding demo (charsets(''utf-7'' \<mapsto> None)) ''X-UTF_8J'' = (Inr UTF8, [])"
proof -
  have l1: "ToLower demo ''UTF-7'' = ''utf-7''" by code_simp
  have l2: "ToLower demo ''X-UTF_8J'' = ''x-utf_8j''" by code_simp
  have a: "(charsets(''utf-7'' \<mapsto> None)) (ToLower demo ''UTF-7'') = Some None"
    by (simp add: l1)
  have b: "(charsets(''utf-7'' \<mapsto> None)) (ToLower demo ''X-UTF_8J'') = Some (Some UTF8)"
    by (simp add: l2 charsets_def)
  have c: "fst (MIME_Encoding demo ''UTF-7'') = Some (OtherEncoding 7)"
    by (simp add: demo_def demo_MIME_def)
  show ?thesis
    using a b c
      charsetEncoding_quirks_entry [where tbl = "charsets(''utf-7'' \<mapsto> None)" and X = demo
        and charset = "''UTF-7''"]
      charsetEncoding_quirks_entry [where tbl = "charsets(''utf-7'' \<mapsto> None)" and X = demo
        and charset = "''X-UTF_8J''" and e = UTF8]
    by simp
qed

text \<open>
  C3. When resolution of the charset fails with an error, \<^verbatim>\<open>Reader\<close> returns the input it was
  given with that error and \<^verbatim>\<open>Writer\<close> the writer it was given with that error; when
  resolution gives an encoding, each returns the stream wrapped with that encoding and a
  \<^verbatim>\<open>nil\<close> error.
\<close>

theorem Reader_Writer_result:
  "(fst (charsetEncoding X tbl charset) = Inl err
      \<longrightarrow> fst (Reader X tbl charset input) = (input, Some err)
        \<and> fst (Writer X tbl charset writer) = (writer, Some err))
   \<and> (fst (charsetEncoding X tbl charset) = Inr enc
      \<longrightarrow> fst (Reader X tbl charset input) = (DecoderReader enc input, None)
        \<and> fst (Writer X tbl charset writer) = (EncoderWriter enc writer, None))"
  by (cases "charsetEncoding X tbl charset") (auto simp: Reader_def Writer_def)

theorem Reader_Writer_result_witness:
  "fst (charsetEncoding demo charsets ''nope'')
     = Inl (LookupFailure ''nope'' ''htmlindex: invalid encoding name'')
   \<and> fst (Reader demo charsets ''nope'' (SourceReader (0::nat)))
     = (SourceReader 0, Some (LookupFailure ''nope'' ''htmlindex: invalid encoding name''))
   \<and> fst (Writer demo charsets ''nope'' (SinkWriter (1::nat)))
     = (SinkWriter 1, Some (LookupFailure ''nope'' ''htmlindex: invalid encoding name''))
   \<and> fst (charsetEncoding demo charsets ''utf-8'') = Inr UTF8
   \<and> fst (Reader demo charsets ''utf-8'' (SourceReader (0::nat)))
     = (DecoderReader UTF8 (SourceReader 0), None)
   \<and> fst (Writer demo charsets ''utf-8'' (SinkWriter (1::nat)))
     = (EncoderWriter UTF8 (SinkWriter 1), None)"
proof -
  have a: "fst (charsetEncoding demo charsets ''nope'')
     = Inl (LookupFailure ''nope'' ''htmlindex: invalid encoding name'')" by code_simp
  have b: "fst (charsetEncoding demo charsets ''utf-8'') = Inr UTF8" by code_simp
  show ?thesis
    using a b
      Reader_Writer_result [where X = demo and tbl = charsets and charset = "''nope''"
        and err = "LookupFailure ''nope'' ''htmlindex: invalid encoding name''"
        and input = "SourceReader (0::nat)" and writer = "SinkWriter (1::nat)"]
      Reader_Writer_result [where X = demo and tbl = charsets and charset = "''utf-8''"
        and enc = UTF8 and input = "SourceReader (0::nat)" and writer = "SinkWriter (1::nat)"]
    by simp
qed

text \<open>
  C4. On the table the package starts with, a seed name in any letter case resolves with
  no error and no index call: every string that differs from \<^verbatim>\<open>ansi_x3.110-1983\<close> only by upper
  case letters (its bytes lower-case to that name) gives \<^verbatim>\<open>charmap.ISO8859_1\<close>, and every
  such variant of \<^verbatim>\<open>x-utf_8j\<close> gives \<^verbatim>\<open>unicode.UTF8\<close>.
\<close>

theorem charsets_seed_any_case:
  "(map lowerByte s = ''ansi_x3.110-1983''
      \<longrightarrow> charsetEncoding X charsets s = (Inr ISO8859_1, []))
   \<and> (map lowerByte s = ''x-utf_8j''
      \<longrightarrow> charsetEncoding X charsets s = (Inr UTF8, []))"
proof (intro conjI impI)
  assume h: "map lowerByte s = ''ansi_x3.110-1983''"
  have "list_all isASCII ''ansi_x3.110-1983''" by (simp add: isASCII_def)
  with h have "ToLower X s = ''ansi_x3.110-1983''" by (rule ToLower_case_variant)
  then have "charsets (ToLower X s) = Some (Some ISO8859_1)" by (simp add: charsets_def)
  then show "charsetEncoding X charsets s = (Inr ISO8859_1, [])" by (rule charsetEncoding_hit)
next
  assume h: "map lowerByte s = ''x-utf_8j''"
  have "list_all isASCII ''x-utf_8j''" by (simp add: isASCII_def)
  with h have "ToLower X s = ''x-utf_8j''" by (rule ToLower_case_variant)
  then have "charsets (ToLower X s) = Some (Some UTF8)" by (simp add: charsets_def)
  then show "charsetEncoding X charsets s = (Inr UTF8, [])" by (rule charsetEncoding_hit)
qed

theorem charsets_seed_any_case_witness:
  "map lowerByte ''ANSI_x3.110-1983'' = ''ansi_x3.110-1983''
   \<and> charsetEncoding demo charsets ''ANSI_x3.110-1983'' = (Inr ISO8859_1, [])
   \<and> map lowerByte ''X-UTF_8J'' = ''x-utf_8j''
   \<and> charsetEncoding demo charsets ''X-UTF_8J'' = (Inr UTF8, [])"
proof -
  have a: "map lowerByte ''ANSI_x3.110-1983'' = ''ansi_x3.110-1983''" by code_simp
  have b: "map lowerByte ''X-UTF_8J'' = ''x-utf_8j''" by code_simp
  show ?thesis
    using a b charsets_seed_any_case [where s = "''ANSI_x3.110-1983''" and X = demo]
      charsets_seed_any_case [where s = "''X-UTF_8J''" and X = demo]
    by simp
qed

text \<open>
  C5. \<^verbatim>\<open>RegisterEncoding\<close> stores the entry under the name as given and resolution looks up
  the lower-cased name, so an entry registered under a name with an upper case letter is
  not found: after registering an encoding under \<^verbatim>\<open>UTF-8\<close>, resolving \<^verbatim>\<open>UTF-8\<close> still
  asks the MIME index and returns the index's encoding.
\<close>

theorem RegisterEncoding_any_name_counterexample:
  "charsetEncoding demo (RegisterEncoding ''UTF-8'' (Some (OtherEncoding 3)) charsets) ''UTF-8''
     = (Inr UTF8, [Call_MIME_Encoding ''UTF-8''])
   \<and> fst (charsetEncoding demo (RegisterEncoding ''UTF-8'' (Some (OtherEncoding 3)) charsets) ''UTF-8'')
     \<noteq> Inr (OtherEncoding 3)"
proof -
  have "charsetEncoding demo (RegisterEncoding ''UTF-8'' (Some (OtherEncoding 3)) charsets) ''UTF-8''
     = (Inr UTF8, [Call_MIME_Encoding ''UTF-8''])" by code_simp
  then show ?thesis by simp
qed

text \<open>
  C5, as the code has it. For every name that \<^verbatim>\<open>strings.ToLower\<close> leaves unchanged and every
  non-nil encoding, after \<^verbatim>\<open>RegisterEncoding(name, codec)\<close> resolution of that name returns the
  registered encoding and calls no external index, whatever the indices hold.
\<close>

theorem RegisterEncoding_lower_name_resolves:
  assumes "ToLower X name = name"
  shows "charsetEncoding X (RegisterEncoding name (Some codec) tbl) name = (Inr codec, [])"
proof -
  from assms have "(RegisterEncoding name (Some codec) tbl) (ToLower X name) = Some (Some codec)"
    by (simp add: RegisterEncoding_def)
  then show ?thesis by (rule charsetEncoding_hit)
qed

theorem RegisterEncoding_lower_name_resolves_witness:
  "ToLower demo ''utf-8'' = ''utf-8''
   \<and> fst (MIME_Encoding demo ''utf-8'') = Some UTF8
   \<and> charsetEncoding demo (RegisterEncoding ''utf-8'' (Some (OtherEncoding 3)) charsets) ''utf-8''
     = (Inr (OtherEncoding 3), [])"
proof -
  have a: "ToLower demo ''utf-8'' = ''utf-8''" by code_simp
  have b: "fst (MIME_Encoding demo ''utf-8'') = Some UTF8" by (simp add: demo_def demo_MIME_def)
  from a b RegisterEncoding_lower_name_resolves [where X = demo and codec = "OtherEncoding 3"
      and tbl = charsets, OF a]
  show ?thesis by simp
qed

text \<open>
  C6. When the lower-cased name is no key of the quirks table and each of the three index
  calls returns neither an encoding nor an error, resolution fails with the error
  \<open>Unsupported\<close> carrying the name as requested.
\<close>

theorem charsetEncoding_unsupported:
  assumes "tbl (ToLower X charset) = None"
    and "MIME_Encoding X charset = (None, None)"
    and "MIME_Encoding X (''cs'' @ charset) = (None, None)"
    and "htmlindex_Get X charset = (None, None)"
  shows "charsetEncoding X tbl charset =
           (Inl (Unsupported charset),
            [Call_MIME_Encoding charset, Call_MIME_Encoding (''cs'' @ charset),
             Call_htmlindex_Get charset])"
  using charsetEncoding_miss_step3 [where tbl = tbl and X = X and charset = charset, OF assms]
  by simp

theorem charsetEncoding_unsupported_witness:
  "charsets (ToLower demo ''ISO-10646-UCS-2'') = None
   \<and> MIME_Encoding demo ''ISO-10646-UCS-2'' = (None, None)
   \<and> MIME_Encoding demo (''cs'' @ ''ISO-10646-UCS-2'') = (None, None)
   \<and> htmlindex_Get demo ''ISO-10646-UCS-2'' = (None, None)
   \<and> charsetEncoding demo charsets ''ISO-10646-UCS-2'' =
       (Inl (Unsupported ''ISO-10646-UCS-2''),
        [Call_MIME_Encoding ''ISO-10646-UCS-2'', Call_MIME_Encoding ''csISO-10646-UCS-2'',
         Call_htmlindex_Get ''ISO-10646-UCS-2''])"
proof -
  have a: "charsets (ToLower demo ''ISO-10646-UCS-2'') = None" by code_simp
  have b: "MIME_Encoding demo ''ISO-10646-UCS-2'' = (None, None)"
    by (simp add: demo_def demo_MIME_def)
  have c: "MIME_Encoding demo (''cs'' @ ''ISO-10646-UCS-2'') = (None, None)"
    by (simp add: demo_def demo_MIME_def)
  have d: "htmlindex_Get demo ''ISO-10646-UCS-2'' = (None, None)"
    by (simp add: demo_def demo_HTML_def)
  from a b c d charsetEncoding_unsupported [where tbl = charsets and X = demo, OF a b c d] show ?thesis by simp
qed

text \<open>
  C7. An error of an index call that gave no encoding does not stop the resolution: the
  next index is called and overwrites \<^verbatim>\<open>err\<close>. For \<^verbatim>\<open>ISOLatin1\<close> the MIME index returns an
  error, the call with \<^verbatim>\<open>csISOLatin1\<close> returns an encoding, and resolution succeeds. It makes
  no difference what the error is: with a MIME index that fails on \<^verbatim>\<open>x-sjis\<close> for a reason of
  its own, resolution goes on to the HTML index and succeeds as well.
\<close>

theorem index_error_then_codec_counterexample:
  "charsets (ToLower demo ''ISOLatin1'') = None
   \<and> MIME_Encoding demo ''ISOLatin1'' = (None, Some ''ianaindex: invalid encoding name'')
   \<and> charsetEncoding demo charsets ''ISOLatin1'' =
       (Inr ISO8859_1, [Call_MIME_Encoding ''ISOLatin1'', Call_MIME_Encoding ''csISOLatin1''])
   \<and> charsetEncoding
         (demo\<lparr>MIME_Encoding := (\<lambda>n. if n = ''x-sjis'' then (None, Some ''index unavailable'')
                                    else MIME_Encoding demo n)\<rparr>)
         charsets ''x-sjis'' =
       (Inr (OtherEncoding 17),
        [Call_MIME_Encoding ''x-sjis'', Call_MIME_Encoding ''csx-sjis'',
         Call_htmlindex_Get ''x-sjis''])"
proof -
  have a: "charsets (ToLower demo ''ISOLatin1'') = None" by code_simp
  have b: "MIME_Encoding demo ''ISOLatin1'' = (None, Some ''ianaindex: invalid encoding name'')"
    by (simp add: demo_def demo_MIME_def)
  have c: "charsetEncoding demo charsets ''ISOLatin1'' =
       (Inr ISO8859_1, [Call_MIME_Encoding ''ISOLatin1'', Call_MIME_Encoding ''csISOLatin1''])"
    by code_simp
  have d: "charsetEncoding
         (demo\<lparr>MIME_Encoding := (\<lambda>n. if n = ''x-sjis'' then (None, Some ''index unavailable'')
                                    else MIME_Encoding demo n)\<rparr>)
         charsets ''x-sjis'' =
       (Inr (OtherEncoding 17),
        [Call_MIME_Encoding ''x-sjis'', Call_MIME_Encoding ''csx-sjis'',
         Call_htmlindex_Get ''x-sjis''])"
    by code_simp
  from a b c d show ?thesis by simp
qed

text \<open>
  C7, as the code has it. When the lower-cased name is no key of the quirks table and the
  last index call made (the first call that gives an encoding, or the HTML index call when
  no call does) returns an error, resolution fails with the error \<open>LookupFailure\<close> carrying
  the name as requested and the message of that error.
\<close>

theorem charsetEncoding_last_index_error:
  assumes "tbl (ToLower X charset) = None"
    and "snd (if fst (MIME_Encoding X charset) \<noteq> None then MIME_Encoding X charset
              else if fst (MIME_Encoding X (''cs'' @ charset)) \<noteq> None
                then MIME_Encoding X (''cs'' @ charset)
              else htmlindex_Get X charset) = Some m"
  shows "fst (charsetEncoding X tbl charset) = Inl (LookupFailure charset m)"
proof -
  obtain e1 r1 where m1: "MIME_Encoding X charset = (e1, r1)" by (cases "MIME_Encoding X charset")
  obtain e2 r2 where m2: "MIME_Encoding X (''cs'' @ charset) = (e2, r2)"
    by (cases "MIME_Encoding X (''cs'' @ charset)")
  obtain e3 r3 where h3: "htmlindex_Get X charset = (e3, r3)" by (cases "htmlindex_Get X charset")
  show ?thesis
  proof (cases e1)
    case (Some a)
    with assms m1 show ?thesis by (simp add: charsetEncoding_miss_step1)
  next
    case n1: None
    show ?thesis
    proof (cases e2)
      case (Some a)
      with assms m1 m2 n1 show ?thesis by (simp add: charsetEncoding_miss_step2)
    next
      case None
      with assms m1 m2 h3 n1 show ?thesis by (simp add: charsetEncoding_miss_step3)
    qed
  qed
qed

theorem charsetEncoding_last_index_error_witness:
  "charsets (ToLower demo ''nope'') = None
   \<and> MIME_Encoding demo ''nope'' = (None, Some ''ianaindex: invalid encoding name'')
   \<and> MIME_Encoding demo ''csnope'' = (None, Some ''ianaindex: invalid encoding name'')
   \<and> htmlindex_Get demo ''nope'' = (None, Some ''htmlindex: invalid encoding name'')
   \<and> fst (charsetEncoding demo charsets ''nope'')
       = Inl (LookupFailure ''nope'' ''htmlindex: invalid encoding name'')"
proof -
  have a: "charsets (ToLower demo ''nope'') = None" by code_simp
  have b: "MIME_Encoding demo ''nope'' = (None, Some ''ianaindex: invalid encoding name'')"
    by (simp add: demo_def demo_MIME_def)
  have c: "MIME_Encoding demo ''csnope'' = (None, Some ''ianaindex: invalid encoding name'')"
    by (simp add: demo_def demo_MIME_def)
  have d: "htmlindex_Get demo ''nope'' = (None, Some ''htmlindex: invalid encoding name'')"
    by (simp add: demo_def demo_HTML_def)
  have e: "snd (if fst (MIME_Encoding demo ''nope'') \<noteq> None then MIME_Encoding demo ''nope''
              else if fst (MIME_Encoding demo (''cs'' @ ''nope'')) \<noteq> None
                then MIME_Encoding demo (''cs'' @ ''nope'')
              else htmlindex_Get demo ''nope'') = Some ''htmlindex: invalid encoding name''"
    using b c d by simp
  from a b c d charsetEncoding_last_index_error [where tbl = charsets and X = demo, OF a e] show ?thesis by simp
qed

text \<open>
  C9. \<^verbatim>\<open>RegisterEncoding(name, enc)\<close> has no failing branch and changes the quirks table at
  the key \<open>name\<close>, exactly as given, and nowhere else: afterwards that key holds \<open>enc\<close>
  (inserted or overwritten), every other key holds what it held, the keys are the former
  keys and \<open>name\<close>, a seed entry other than \<open>name\<close> is the seed entry still, and resolution
  of every charset whose lower-cased name is not \<open>name\<close> is what it was.
\<close>

theorem RegisterEncoding_frame:
  "RegisterEncoding name enc tbl name = Some enc
   \<and> (\<forall>key. key \<noteq> name \<longrightarrow> RegisterEncoding name enc tbl key = tbl key)
   \<and> dom (RegisterEncoding name enc tbl) = insert name (dom tbl)
   \<and> (name \<noteq> ''ansi_x3.110-1983''
        \<longrightarrow> RegisterEncoding name enc charsets ''ansi_x3.110-1983'' = Some (Some ISO8859_1))
   \<and> (name \<noteq> ''x-utf_8j''
        \<longrightarrow> RegisterEncoding name enc charsets ''x-utf_8j'' = Some (Some UTF8))
   \<and> (\<forall>charset. ToLower X charset \<noteq> name
        \<longrightarrow> charsetEncoding X (RegisterEncoding name enc tbl) charset
            = charsetEncoding X tbl charset)"
  by (simp add: RegisterEncoding_def charsets_def charsetEncoding_def quirks_lookup_def)

theorem RegisterEncoding_frame_witness:
  "RegisterEncoding ''UTF-7'' None charsets ''UTF-7'' = Some None
   \<and> RegisterEncoding ''UTF-7'' None charsets ''utf-7'' = None
   \<and> RegisterEncoding ''UTF-7'' None charsets ''ansi_x3.110-1983'' = Some (Some ISO8859_1)
   \<and> RegisterEncoding ''UTF-7'' None charsets ''x-utf_8j'' = Some (Some UTF8)
   \<and> ToLower demo ''UTF-7'' = ''utf-7''
   \<and> charsetEncoding demo (RegisterEncoding ''UTF-7'' None charsets) ''UTF-7''
       = (Inr (OtherEncoding 7), [Call_MIME_Encoding ''UTF-7''])"
proof -
  have a: "ToLower demo ''UTF-7'' = ''utf-7''" by code_simp
  have b: "charsetEncoding demo charsets ''UTF-7'' = (Inr (OtherEncoding 7), [Call_MIME_Encoding ''UTF-7''])"
    by code_simp
  have c: "charsets ''utf-7'' = None" by (simp add: charsets_def)
  from a b c RegisterEncoding_frame [where name = "''UTF-7''" and enc = None and tbl = charsets
      and X = demo]
  show ?thesis by simp
qed

text \<open>
  C10. After \<^verbatim>\<open>RegisterEncoding(name, nil)\<close>, resolution of every charset whose lower-cased
  name equals the stored key \<open>name\<close> fails with the error \<open>Disabled\<close> carrying the charset as
  requested and calls no external index, whatever the indices hold.
\<close>

theorem RegisterEncoding_nil_disables:
  assumes "ToLower X charset = name"
  shows "charsetEncoding X (RegisterEncoding name None tbl) charset = (Inl (Disabled charset), [])"
proof -
  from assms have "(RegisterEncoding name None tbl) (ToLower X charset) = Some None"
    by (simp add: RegisterEncoding_def)
  then show ?thesis by (rule charsetEncoding_disabled)
qed

theorem RegisterEncoding_nil_disables_witness:
  "ToLower demo ''UTF-7'' = ''utf-7''
   \<and> fst (charsetEncoding demo charsets ''UTF-7'') = Inr (OtherEncoding 7)
   \<and> charsetEncoding demo (RegisterEncoding ''utf-7'' None charsets) ''UTF-7''
       = (Inl (Disabled ''UTF-7''), [])
   \<and> ToLower demo ''utf-7'' = ''utf-7''
   \<and> charsetEncoding demo (RegisterEncoding ''utf-7'' None charsets) ''utf-7''
       = (Inl (Disabled ''utf-7''), [])"
proof -
  have a: "ToLower demo ''UTF-7'' = ''utf-7''" by code_simp
  have b: "ToLower demo ''utf-7'' = ''utf-7''" by code_simp
  have c: "fst (charsetEncoding demo charsets ''UTF-7'') = Inr (OtherEncoding 7)" by code_simp
  from a b c
    RegisterEncoding_nil_disables [where X = demo and tbl = charsets, OF a]
    RegisterEncoding_nil_disables [where X = demo and tbl = charsets, OF b]
  show ?thesis by simp
qed

end
